theory Spec2Isabelle
  imports Complex_Main
begin

section \<open>The prediction cache of \<open>ML_MODEL\<close> (main.py)\<close>

text \<open>
  The class \<open>ML_MODEL\<close> keeps a scikit-learn pipeline in memory, a dictionary of cached
  predictions, and two files: \<open>modelConfig.json\<close> (the change counter and the row count of
  the last training) and \<open>model.pkl\<close> (the fitted pipeline).  The embedding passes the
  object's fields, the two files and the database explicitly as one state record.

  A Python float is modelled by the real number it denotes.  The operations of the
  preprocessing whose results are rounded (\<open>np.log\<close>, the interpolation of
  \<open>Series.quantile\<close>, and the float subtraction, multiplication and addition that give
  the fences) are parameters, so that nothing is assumed about how they round.  The
  division and the comparison of the load factor and \<open>np.exp\<close> are those of the reals.
\<close>

subsection \<open>Data\<close>

text \<open>Every raise of the code under study is a value of this type.\<close>

datatype error =
    DatabaseError     \<comment> \<open>the \<open>except\<close> branches: \<open>error(..., terminate=True)\<close>, which exits\<close>
  | KeyError          \<comment> \<open>\<open>self.predictionCache[id]\<close> on an absent key\<close>
  | AttributeError    \<comment> \<open>\<open>self.model.predict\<close> while \<open>self.model\<close> has no \<open>predict\<close>\<close>
  | ValueError        \<comment> \<open>scikit-learn's input validation on a frame of zero rows\<close>
  | UnpicklingError   \<comment> \<open>\<open>joblib.load\<close> on a file that cannot be unpickled\<close>

text \<open>The columns \<open>Job Type\<close> and \<open>Hours Worked\<close> of a row.\<close>

type_synonym features = "string \<times> real"

text \<open>A row of the table \<open>jobs\<close>, with the columns the class selects; \<open>pay\<close> may be NULL.\<close>

record job =
  jid :: int
  job_type :: string
  hours_worked :: real
  pay :: "real option"

text \<open>The contents of \<open>modelConfig.json\<close>.\<close>

record config =
  dbChangeCounter :: int
  lastTrainedRowCount :: int

text \<open>
  What \<open>self.model\<close> can hold besides \<open>None\<close>: a fitted pipeline, or an object of another
  kind, without a method \<open>predict\<close>, that \<open>joblib.load\<close> has returned (\<open>predict\<close> assigns
  what it loads without a check).
\<close>

datatype 'm pyobject = Pipeline 'm | NotAPipeline

text \<open>
  The contents of \<open>model.pkl\<close>: a pipeline written by \<open>joblib.dump\<close>; or a file that
  unpickles to an object of another kind, without a method \<open>predict\<close>; or a file that
  cannot be unpickled.
\<close>

datatype 'm pkl = Artifact 'm | Unusable | Unreadable

text \<open>The three SQL statements the class sends, recorded in the order they are executed.\<close>

datatype query =
    SelectTraining                \<comment> \<open>\<open>SELECT job_type, hours_worked, pay FROM jobs\<close>\<close>
  | SelectAllFeatures             \<comment> \<open>\<open>SELECT id, job_type, hours_worked FROM jobs\<close>\<close>
  | SelectFeaturesByIDs "int list" \<comment> \<open>\<open>... WHERE id IN (...)\<close> with its parameters\<close>

text \<open>
  The libraries are parameters.  Of scikit-learn: \<open>fit\<close> builds a fitted pipeline of type
  \<open>'m\<close> from the feature rows and their labels, \<open>predict_row\<close> is the fitted pipeline's
  prediction for one row (a fitted pipeline of an encoder, a scaler and a decision tree
  predicts each row on its own).  Of numpy, pandas and the float arithmetic: \<open>flog\<close> is
  \<open>np.log\<close> on a positive number, \<open>lerp i j t\<close> is the linear interpolation of
  \<open>Series.quantile\<close> between the neighbouring data points \<open>i\<close> and \<open>j\<close> at the fraction
  \<open>t\<close>, and \<open>fsub\<close>, \<open>fmul\<close>, \<open>fadd\<close> are the float operations \<open>-\<close>, \<open>*\<close>, \<open>+\<close>.
\<close>

record 'm libraries =
  fit :: "(features \<times> real) list \<Rightarrow> 'm"
  predict_row :: "'m \<Rightarrow> features \<Rightarrow> real"
  flog :: "real \<Rightarrow> real"
  lerp :: "real \<Rightarrow> real \<Rightarrow> real \<Rightarrow> real"
  fsub :: "real \<Rightarrow> real \<Rightarrow> real"
  fmul :: "real \<Rightarrow> real \<Rightarrow> real"
  fadd :: "real \<Rightarrow> real \<Rightarrow> real"

text \<open>
  The object and its surroundings.  \<open>dbConn\<close> is the table behind the connection, \<open>None\<close>
  when a query on it raises; \<open>dbQueries\<close> records the statements executed so far; a file
  is \<open>None\<close> when \<open>os.path.exists\<close> is false.
\<close>

record 'm ML_MODEL =
  dbConn :: "job list option"
  dbQueries :: "query list"
  model :: "'m pyobject option"
  predictionCache :: "int \<rightharpoonup> real"
  modelConfigFile :: "config option"
  modelPklFile :: "'m pkl option"

definition bind_err :: "error + 'a \<Rightarrow> ('a \<Rightarrow> error + 'b) \<Rightarrow> error + 'b" where
  "bind_err x f = (case x of Inl e \<Rightarrow> Inl e | Inr v \<Rightarrow> f v)"

subsection \<open>The configuration file\<close>

definition readModelConfigFilepath :: "'m ML_MODEL \<Rightarrow> 'm ML_MODEL \<times> config" where
  "readModelConfigFilepath s =
     (case modelConfigFile s of
        Some c \<Rightarrow> (s, c)
      | None \<Rightarrow>
          (let c = \<lparr>dbChangeCounter = 0, lastTrainedRowCount = 0\<rparr>
           in (s\<lparr>modelConfigFile := Some c\<rparr>, c)))"

definition writeModelConfigFilepath :: "'m ML_MODEL \<Rightarrow> config \<Rightarrow> 'm ML_MODEL" where
  "writeModelConfigFilepath s c = s\<lparr>modelConfigFile := Some c\<rparr>"

definition calculateRetrainLoadFactor :: "'m ML_MODEL \<Rightarrow> 'm ML_MODEL \<times> real" where
  "calculateRetrainLoadFactor s =
     (let (s', c) = readModelConfigFilepath s
      in (s', if lastTrainedRowCount c > 0
              then real_of_int (dbChangeCounter c) / real_of_int (lastTrainedRowCount c)
              else 0))"

definition incrementDbChangeCounter :: "'m ML_MODEL \<Rightarrow> int \<Rightarrow> 'm ML_MODEL" where
  "incrementDbChangeCounter s x =
     (let (s', c) = readModelConfigFilepath s
      in writeModelConfigFilepath s' (c\<lparr>dbChangeCounter := dbChangeCounter c + x\<rparr>))"

subsection \<open>The cache\<close>

definition markDirtyIDs :: "'m ML_MODEL \<Rightarrow> int list \<Rightarrow> 'm ML_MODEL" where
  "markDirtyIDs s IDs =
     s\<lparr>predictionCache := fold (\<lambda>i c. c(i := None)) IDs (predictionCache s)\<rparr>"

definition reset :: "'m ML_MODEL \<Rightarrow> 'm ML_MODEL" where
  "reset s = s\<lparr>model := None, predictionCache := Map.empty,
               modelConfigFile := None, modelPklFile := None\<rparr>"

text \<open>The loop \<open>for i in range(len(idList)): self.predictionCache[idList[i]] = ...\<close>.\<close>

definition cachePredictions :: "int list \<Rightarrow> real list \<Rightarrow> (int \<rightharpoonup> real) \<Rightarrow> (int \<rightharpoonup> real)" where
  "cachePredictions idList predictedPayList cache =
     fold (\<lambda>(i, p) c. c(i \<mapsto> p)) (zip idList predictedPayList) cache"

text \<open>
  The loop that builds \<open>predictionsToReturn\<close>; \<open>self.predictionCache[id]\<close> raises on the
  first requested ID that is not a key of the cache.
\<close>

fun returnRequested ::
  "(int \<rightharpoonup> real) \<Rightarrow> int list \<Rightarrow> (int \<rightharpoonup> real) \<Rightarrow> error + (int \<rightharpoonup> real)" where
  "returnRequested cache [] predictionsToReturn = Inr predictionsToReturn"
| "returnRequested cache (i # requestedIDs) predictionsToReturn =
     (case cache i of
        None \<Rightarrow> Inl KeyError
      | Some v \<Rightarrow> returnRequested cache requestedIDs (predictionsToReturn(i \<mapsto> v)))"

subsection \<open>Training\<close>

text \<open>\<open>dropna\<close>: the rows whose second component is present.\<close>

fun notna :: "('a \<times> 'b option) list \<Rightarrow> ('a \<times> 'b) list" where
  "notna [] = []"
| "notna ((f, None) # df) = notna df"
| "notna ((f, Some v) # df) = (f, v) # notna df"

text \<open>\<open>np.log\<close>: not a number (\<open>None\<close>) below zero; zero never reaches it.\<close>

definition np_log :: "'m libraries \<Rightarrow> real \<Rightarrow> real option" where
  "np_log lib p = (if 0 < p then Some (flog lib p) else None)"

text \<open>
  \<open>Series.quantile(q)\<close> of pandas with its default linear interpolation, on the values that
  are numbers: not a number on an empty series; otherwise the interpolation between the
  two data points next to the position \<open>(n - 1) q\<close> in the sorted values (the position is
  exact in floats for the quartiles, whose \<open>q\<close> is a multiple of a quarter).
\<close>

definition quantile :: "'m libraries \<Rightarrow> real list \<Rightarrow> real \<Rightarrow> real option" where
  "quantile lib xs q =
     (if xs = [] then None
      else let ys = sort xs;
               h = real (length ys - 1) * q;
               lo = nat \<lfloor>h\<rfloor>;
               hi = nat \<lceil>h\<rceil>
           in Some (lerp lib (ys ! lo) (ys ! hi) (h - real lo)))"

text \<open>
  The preprocessing of \<open>_train\<close>: the rows that are left, each with its features and its
  \<open>Log Pay\<close>.  A comparison with a bound that is not a number is false, so that nothing is
  left when the quantiles are not numbers.
\<close>

definition preprocess :: "'m libraries \<Rightarrow> job list \<Rightarrow> (features \<times> real) list" where
  "preprocess lib jobs =
     (let df = notna (map (\<lambda>j. ((job_type j, hours_worked j), pay j)) jobs);
          df = filter (\<lambda>(f, p). p \<noteq> 0) df;
          df = map (\<lambda>(f, p). (f, np_log lib p)) df;
          logPay = map snd (notna df)
      in case (quantile lib logPay 0.25, quantile lib logPay 0.75) of
           (Some Q1, Some Q3) \<Rightarrow>
             (let IQR = fsub lib Q3 Q1;
                  lowerBound = fsub lib Q1 (fmul lib 1.5 IQR);
                  upperBound = fadd lib Q3 (fmul lib 1.5 IQR)
              in filter (\<lambda>(f, l). l \<ge> lowerBound \<and> l \<le> upperBound) (notna df))
         | _ \<Rightarrow> [])"

definition train :: "'m libraries \<Rightarrow> 'm ML_MODEL \<Rightarrow> error + 'm ML_MODEL" where
  "train lib s =
     (case dbConn s of
        None \<Rightarrow> Inl DatabaseError
      | Some jobs \<Rightarrow>
          (let s1 = s\<lparr>dbQueries := dbQueries s @ [SelectTraining]\<rparr>;
               df = preprocess lib jobs
           in if length df = 0 then Inr s1
              else (let m = fit lib df;
                        s2 = s1\<lparr>model := Some (Pipeline m)\<rparr>;
                        s3 = s2\<lparr>modelPklFile := Some (Artifact m)\<rparr>
                    in Inr (writeModelConfigFilepath s3
                         \<lparr>dbChangeCounter = 0, lastTrainedRowCount = int (length df)\<rparr>))))"

subsection \<open>Predicting into the cache\<close>

text \<open>
  \<open>self.model.predict(featuresList)\<close>: an attribute error when \<open>self.model\<close> is \<open>None\<close> or
  an object without a method \<open>predict\<close>; scikit-learn refuses a frame of zero rows;
  otherwise one prediction for each row.
\<close>

definition model_predict ::
  "'m libraries \<Rightarrow> 'm pyobject option \<Rightarrow> features list \<Rightarrow> error + real list" where
  "model_predict lib mo featuresList =
     (case mo of
        None \<Rightarrow> Inl AttributeError
      | Some NotAPipeline \<Rightarrow> Inl AttributeError
      | Some (Pipeline m) \<Rightarrow>
          if featuresList = [] then Inl ValueError
          else Inr (map (predict_row lib m) featuresList))"

definition predictAndCacheEverything :: "'m libraries \<Rightarrow> 'm ML_MODEL \<Rightarrow> error + 'm ML_MODEL" where
  "predictAndCacheEverything lib s =
     (case dbConn s of
        None \<Rightarrow> Inl DatabaseError
      | Some jobs \<Rightarrow>
          (let s1 = s\<lparr>dbQueries := dbQueries s @ [SelectAllFeatures]\<rparr>;
               idList = map jid jobs;
               featuresList = map (\<lambda>j. (job_type j, hours_worked j)) jobs
           in if length idList = 0 then Inr s1
              else bind_err (model_predict lib (model s1) featuresList)
                     (\<lambda>logPredictedPayList.
                        let predictedPayList = map exp logPredictedPayList
                        in Inr (s1\<lparr>predictionCache :=
                                  cachePredictions idList predictedPayList Map.empty\<rparr>))))"

definition predictAndCacheDirtyIDs ::
  "'m libraries \<Rightarrow> 'm ML_MODEL \<Rightarrow> int list \<Rightarrow> error + 'm ML_MODEL" where
  "predictAndCacheDirtyIDs lib s dirtyIDs =
     (if length dirtyIDs = 0 then Inr s
      else case dbConn s of
        None \<Rightarrow> Inl DatabaseError
      | Some jobs \<Rightarrow>
          (let s1 = s\<lparr>dbQueries := dbQueries s @ [SelectFeaturesByIDs dirtyIDs]\<rparr>;
               data = filter (\<lambda>j. jid j \<in> set dirtyIDs) jobs;
               idList = map jid data;
               featuresList = map (\<lambda>j. (job_type j, hours_worked j)) data
           in bind_err (model_predict lib (model s1) featuresList)
                (\<lambda>logPredictedPayList.
                   let predictedPayList = map exp logPredictedPayList
                   in Inr (s1\<lparr>predictionCache :=
                             cachePredictions idList predictedPayList (predictionCache s1)\<rparr>))))"

subsection \<open>\<open>predict\<close>\<close>

text \<open>
  \<open>joblib.load\<close> gives back the object the file unpickles to, whatever it is, and raises
  when the file cannot be unpickled.
\<close>

definition joblib_load :: "'m pkl \<Rightarrow> error + 'm pyobject" where
  "joblib_load f =
     (case f of
        Artifact m \<Rightarrow> Inr (Pipeline m)
      | Unusable \<Rightarrow> Inr NotAPipeline
      | Unreadable \<Rightarrow> Inl UnpicklingError)"

text \<open>The three cases of \<open>predict\<close>, in the order of its \<open>if\<close>/\<open>elif\<close>/\<open>else\<close>.\<close>

datatype predict_case = Case1 | Case2 | Case3

definition predictCase :: "real \<Rightarrow> 'm option \<Rightarrow> predict_case" where
  "predictCase retrainLoadFactor mo =
     (if retrainLoadFactor > 0.2 then Case1
      else if mo = None then Case2
      else Case3)"

definition firstTimeLoadOrTrain :: "'m libraries \<Rightarrow> 'm ML_MODEL \<Rightarrow> error + 'm ML_MODEL" where
  "firstTimeLoadOrTrain lib s =
     (case modelPklFile s of
        Some f \<Rightarrow> bind_err (joblib_load f) (\<lambda>loaded. Inr (s\<lparr>model := Some loaded\<rparr>))
      | None \<Rightarrow> train lib s)"

definition updateCache :: "'m libraries \<Rightarrow> 'm ML_MODEL \<Rightarrow> int list \<Rightarrow> error + 'm ML_MODEL" where
  "updateCache lib s requestedIDs =
     (let (s1, retrainLoadFactor) = calculateRetrainLoadFactor s
      in case predictCase retrainLoadFactor (model s1) of
           Case1 \<Rightarrow> bind_err (train lib s1) (predictAndCacheEverything lib)
         | Case2 \<Rightarrow> bind_err (firstTimeLoadOrTrain lib s1) (predictAndCacheEverything lib)
         | Case3 \<Rightarrow>
             (let dirtyIDs = filter (\<lambda>x. predictionCache s1 x = None) requestedIDs
              in if length dirtyIDs \<noteq> 0 then predictAndCacheDirtyIDs lib s1 dirtyIDs
                 else Inr s1))"

definition predict ::
  "'m libraries \<Rightarrow> 'm ML_MODEL \<Rightarrow> int list \<Rightarrow> error + ('m ML_MODEL \<times> (int \<rightharpoonup> real))" where
  "predict lib s requestedIDs =
     (if length requestedIDs = 0 then Inr (s, Map.empty)
      else bind_err (updateCache lib s requestedIDs)
             (\<lambda>s'. bind_err (returnRequested (predictionCache s') requestedIDs Map.empty)
                      (\<lambda>predictionsToReturn. Inr (s', predictionsToReturn))))"

subsection \<open>The preprocessing as the specification words it\<close>

text \<open>
  The specification describes the preprocessing on the rows themselves: (a) drop the rows
  whose label is missing or exactly zero; (b) take the quartiles of the log-labels of the
  rows that remain; (c) drop the rows whose log-label is outside
  \<open>[Q1 - 1.5 IQR, Q3 + 1.5 IQR]\<close>.  This second definition follows those words, with the
  logarithm, the quartiles and the arithmetic of the same libraries; it is compared with
  \<open>preprocess\<close> below.
\<close>

definition logLabel :: "'m libraries \<Rightarrow> job \<Rightarrow> real option" where
  "logLabel lib j = (case pay j of None \<Rightarrow> None | Some p \<Rightarrow> np_log lib p)"

definition tukey_rows_spec :: "'m libraries \<Rightarrow> job list \<Rightarrow> job list" where
  "tukey_rows_spec lib jobs =
     (let labelled = filter (\<lambda>j. pay j \<noteq> None \<and> pay j \<noteq> Some 0) jobs;
          logs = List.map_filter (logLabel lib) labelled
      in case (quantile lib logs (1/4), quantile lib logs (3/4)) of
           (Some Q1, Some Q3) \<Rightarrow>
             filter (\<lambda>j. case logLabel lib j of
                           None \<Rightarrow> False
                         | Some l \<Rightarrow>
                             fsub lib Q1 (fmul lib 1.5 (fsub lib Q3 Q1)) \<le> l
                             \<and> l \<le> fadd lib Q3 (fmul lib 1.5 (fsub lib Q3 Q1)))
                    labelled
         | _ \<Rightarrow> [])"

subsection \<open>Concrete inputs\<close>

text \<open>
  A stand-in for the libraries, to evaluate the functions at concrete inputs: the fitted
  model is the number of rows it was fitted on and every log-prediction is 0, so that
  every cached prediction is \<open>exp 0 = 1\<close>; the arithmetic is the exact one.
\<close>

definition example_libraries :: "nat libraries" where
  "example_libraries =
     \<lparr>fit = length, predict_row = (\<lambda>m f. 0), flog = ln,
      lerp = (\<lambda>i j t. i + t * (j - i)), fsub = (-), fmul = (*), fadd = (+)\<rparr>"

definition example_job :: "int \<Rightarrow> real option \<Rightarrow> job" where
  "example_job i p = \<lparr>jid = i, job_type = ''Tutoring'', hours_worked = 2, pay = p\<rparr>"

definition example_state ::
  "job list \<Rightarrow> nat pyobject option \<Rightarrow> (int \<rightharpoonup> real) \<Rightarrow> config option \<Rightarrow> nat pkl option
     \<Rightarrow> nat ML_MODEL" where
  "example_state jobs mo cache cfg file =
     \<lparr>dbConn = Some jobs, dbQueries = [], model = mo, predictionCache = cache,
      modelConfigFile = cfg, modelPklFile = file\<rparr>"

text \<open>The object as \<open>__init__\<close> leaves it, with no file on disk.\<close>

definition cold_start :: "job list \<Rightarrow> nat ML_MODEL" where
  "cold_start jobs = example_state jobs None Map.empty None None"

section \<open>Auxiliary facts\<close>

lemmas ml_defs = predict_def updateCache_def calculateRetrainLoadFactor_def
  readModelConfigFilepath_def predictCase_def firstTimeLoadOrTrain_def train_def bind_err_def
  predictAndCacheEverything_def predictAndCacheDirtyIDs_def model_predict_def
  writeModelConfigFilepath_def cachePredictions_def joblib_load_def markDirtyIDs_def

lemmas pre_defs = preprocess_def np_log_def quantile_def

lemmas example_defs = example_libraries_def example_job_def example_state_def cold_start_def

subsection \<open>The preprocessing\<close>

lemma notna_map:
  "notna (map (\<lambda>j. (a j, b j)) xs) = map (\<lambda>j. (a j, the (b j))) (filter (\<lambda>j. b j \<noteq> None) xs)"
  by (induction xs) auto

lemma preprocess_refines_spec:
  "preprocess lib jobs =
     map (\<lambda>j. ((job_type j, hours_worked j), the (logLabel lib j))) (tukey_rows_spec lib jobs)"
proof -
  let ?feat = "\<lambda>j. (job_type j, hours_worked j)"
  let ?labelled = "filter (\<lambda>j. pay j \<noteq> None \<and> pay j \<noteq> Some 0) jobs"
  have a: "filter (\<lambda>(f, p). p \<noteq> 0) (notna (map (\<lambda>j. (?feat j, pay j)) jobs))
           = map (\<lambda>j. (?feat j, the (pay j))) ?labelled"
    by (induction jobs) auto
  have b: "map (\<lambda>(f, p). (f, np_log lib p)) (map (\<lambda>j. (?feat j, the (pay j))) ?labelled)
           = map (\<lambda>j. (?feat j, logLabel lib j)) ?labelled"
    by (auto simp: logLabel_def)
  have c: "notna (map (\<lambda>j. (?feat j, logLabel lib j)) ?labelled)
           = map (\<lambda>j. (?feat j, the (logLabel lib j))) (filter (\<lambda>j. logLabel lib j \<noteq> None) ?labelled)"
    by (rule notna_map)
  have d: "map snd (map (\<lambda>j. (?feat j, the (logLabel lib j))) (filter (\<lambda>j. logLabel lib j \<noteq> None) ?labelled))
           = List.map_filter (logLabel lib) ?labelled"
    by (simp add: List.map_filter_def comp_def)
  show ?thesis
    unfolding preprocess_def tukey_rows_spec_def Let_def a b c d
    apply (simp add: filter_map comp_def split: option.splits)
    apply (intro allI impI arg_cong[where f="map _"] filter_cong refl)
    apply auto
    done
qed

subsection \<open>The cache\<close>

lemma cachePredictions_upds: "cachePredictions idList ps c = c(idList [\<mapsto>] ps)"
  unfolding cachePredictions_def
proof (induction idList arbitrary: ps c)
  case Nil
  then show ?case by simp
next
  case (Cons i idList)
  then show ?case by (cases ps) (simp_all del: fun_upd_apply)
qed

lemma cachePredictions_other:
  "i \<notin> set idList \<Longrightarrow> cachePredictions idList ps c i = c i"
  by (simp add: cachePredictions_upds)

lemma dom_cachePredictions:
  "length ps = length idList \<Longrightarrow> dom (cachePredictions idList ps c) = set idList \<union> dom c"
  by (simp add: cachePredictions_upds dom_map_upds)

lemma cachePredictions_rows:
  "distinct (map k rows) \<Longrightarrow> r \<in> set rows \<Longrightarrow>
     cachePredictions (map k rows) (map g rows) c (k r) = Some (g r)"
  unfolding cachePredictions_upds
proof (induction rows arbitrary: c)
  case Nil
  then show ?case by simp
next
  case (Cons a rows)
  then show ?case by (cases "r = a") (auto simp: image_iff)
qed

lemma returnRequested_present:
  "\<forall>i \<in> set ids. cache i \<noteq> None \<Longrightarrow>
     returnRequested cache ids acc = Inr (\<lambda>i. if i \<in> set ids then cache i else acc i)"
proof (induction ids arbitrary: acc)
  case Nil
  then show ?case by simp
next
  case (Cons a ids)
  then obtain v where v: "cache a = Some v" by auto
  have "returnRequested cache (a # ids) acc = returnRequested cache ids (acc(a \<mapsto> v))"
    by (simp add: v)
  also have "\<dots> = Inr (\<lambda>i. if i \<in> set ids then cache i else (acc(a \<mapsto> v)) i)"
    using Cons by simp
  finally show ?case by (auto simp: v fun_eq_iff)
qed


lemma returnRequested_Inr:
  "returnRequested cache ids acc = Inr r \<Longrightarrow> \<forall>i \<in> set ids. cache i \<noteq> None"
  by (induction ids arbitrary: acc) (auto split: option.splits)

subsection \<open>The load factor and the three cases\<close>

lemma loadFactor_above:
  "0.2 < snd (calculateRetrainLoadFactor s) \<Longrightarrow> fst (calculateRetrainLoadFactor s) = s"
  by (auto simp: calculateRetrainLoadFactor_def readModelConfigFilepath_def Let_def
      split: option.splits)

lemma calculate_fields:
  "dbConn (fst (calculateRetrainLoadFactor s)) = dbConn s"
  "dbQueries (fst (calculateRetrainLoadFactor s)) = dbQueries s"
  "model (fst (calculateRetrainLoadFactor s)) = model s"
  "predictionCache (fst (calculateRetrainLoadFactor s)) = predictionCache s"
  "modelPklFile (fst (calculateRetrainLoadFactor s)) = modelPklFile s"
  by (auto simp: calculateRetrainLoadFactor_def readModelConfigFilepath_def Let_def
      split: option.splits)

lemma updateCache_cases:
  "updateCache lib s ids =
     (let s1 = fst (calculateRetrainLoadFactor s)
      in if 0.2 < snd (calculateRetrainLoadFactor s)
         then bind_err (train lib s1) (predictAndCacheEverything lib)
         else if model s = None
         then bind_err (firstTimeLoadOrTrain lib s1) (predictAndCacheEverything lib)
         else (let dirtyIDs = filter (\<lambda>x. predictionCache s x = None) ids
               in if dirtyIDs = [] then Inr s1 else predictAndCacheDirtyIDs lib s1 dirtyIDs))"
proof -
  obtain s1 lf where e: "calculateRetrainLoadFactor s = (s1, lf)"
    by force
  have "model s1 = model s" "predictionCache s1 = predictionCache s"
    using calculate_fields [of s] e by simp_all
  then show ?thesis
    by (simp add: updateCache_def predictCase_def Let_def e)
qed

lemma loadFactor_config:
  "modelConfigFile s' = modelConfigFile s \<Longrightarrow>
     snd (calculateRetrainLoadFactor s') = snd (calculateRetrainLoadFactor s)"
  by (simp add: calculateRetrainLoadFactor_def readModelConfigFilepath_def Let_def
      split: option.splits)

subsection \<open>The steps of \<open>predict\<close>\<close>

lemma predictAndCacheDirtyIDs_model:
  assumes "dirtyIDs \<noteq> []" "dbConn s = Some jobs" "model s = Some (Pipeline m)"
  shows "predictAndCacheDirtyIDs lib s dirtyIDs =
     (let data = filter (\<lambda>j. jid j \<in> set dirtyIDs) jobs
      in if data = [] then Inl ValueError
         else Inr (s\<lparr>dbQueries := dbQueries s @ [SelectFeaturesByIDs dirtyIDs],
                     predictionCache := cachePredictions (map jid data)
                       (map (\<lambda>j. exp (predict_row lib m (job_type j, hours_worked j))) data)
                       (predictionCache s)\<rparr>))"
  using assms
  by (simp add: predictAndCacheDirtyIDs_def model_predict_def bind_err_def Let_def comp_def)

lemma predictAndCacheDirtyIDs_Inr:
  assumes "predictAndCacheDirtyIDs lib s dirtyIDs = Inr s'" "dirtyIDs \<noteq> []"
  shows "dbQueries s' = dbQueries s @ [SelectFeaturesByIDs dirtyIDs]"
    and "k \<notin> set dirtyIDs \<Longrightarrow> predictionCache s' k = predictionCache s k"
    and "model s' = model s" and "dbConn s' = dbConn s"
    and "modelConfigFile s' = modelConfigFile s" and "modelPklFile s' = modelPklFile s"
proof -
  from assms obtain jobs where db: "dbConn s = Some jobs"
    by (auto simp: predictAndCacheDirtyIDs_def split: option.splits)
  from assms db obtain m where m: "model s = Some (Pipeline m)"
    by (auto simp: predictAndCacheDirtyIDs_def model_predict_def bind_err_def Let_def
        split: option.splits pyobject.splits)
  let ?data = "filter (\<lambda>j. jid j \<in> set dirtyIDs) jobs"
  have s': "s' = s\<lparr>dbQueries := dbQueries s @ [SelectFeaturesByIDs dirtyIDs],
                     predictionCache := cachePredictions (map jid ?data)
                       (map (\<lambda>j. exp (predict_row lib m (job_type j, hours_worked j))) ?data)
                       (predictionCache s)\<rparr>"
    using assms predictAndCacheDirtyIDs_model [OF assms(2) db m, of lib]
    by (auto simp: Let_def split: if_splits)
  show "dbQueries s' = dbQueries s @ [SelectFeaturesByIDs dirtyIDs]"
    and "model s' = model s" and "dbConn s' = dbConn s"
    and "modelConfigFile s' = modelConfigFile s" and "modelPklFile s' = modelPklFile s"
    by (simp_all add: s')
  show "predictionCache s' k = predictionCache s k" if "k \<notin> set dirtyIDs"
  proof -
    have "k \<notin> set (map jid ?data)" using that by auto
    then show ?thesis by (simp add: s' cachePredictions_other)
  qed
qed

lemma markDirtyIDs_fields:
  "dbConn (markDirtyIDs s IDs) = dbConn s"
  "dbQueries (markDirtyIDs s IDs) = dbQueries s"
  "model (markDirtyIDs s IDs) = model s"
  "modelConfigFile (markDirtyIDs s IDs) = modelConfigFile s"
  "modelPklFile (markDirtyIDs s IDs) = modelPklFile s"
  by (simp_all add: markDirtyIDs_def)

lemma markDirtyIDs_cache:
  "predictionCache (markDirtyIDs s IDs) k = (if k \<in> set IDs then None else predictionCache s k)"
proof -
  have "fold (\<lambda>i c. c(i := None)) IDs c k = (if k \<in> set IDs then None else c k)"
    for c :: "int \<rightharpoonup> real"
    by (induction IDs arbitrary: c) auto
  then show ?thesis by (simp add: markDirtyIDs_def)
qed



lemma predictAndCacheEverything_Inr:
  assumes "predictAndCacheEverything lib s = Inr s'" "dbConn s = Some jobs"
  shows "dbConn s' = dbConn s" and "model s' = model s"
    and "modelConfigFile s' = modelConfigFile s" and "modelPklFile s' = modelPklFile s"
    and "dbQueries s' = dbQueries s @ [SelectAllFeatures]"
    and "jobs = [] \<Longrightarrow> predictionCache s' = predictionCache s"
    and "jobs \<noteq> [] \<Longrightarrow> \<exists>m. model s = Some (Pipeline m) \<and> predictionCache s' =
           cachePredictions (map jid jobs)
             (map (\<lambda>j. exp (predict_row lib m (job_type j, hours_worked j))) jobs) Map.empty"
  using assms
  by (auto simp: predictAndCacheEverything_def model_predict_def bind_err_def Let_def comp_def
      split: option.splits if_splits pyobject.splits)



subsection \<open>Calling \<open>predict\<close> again\<close>

lemma calculate_config:
  "modelConfigFile (fst (calculateRetrainLoadFactor s)) \<noteq> None"
  "snd (calculateRetrainLoadFactor (fst (calculateRetrainLoadFactor s))) =
     snd (calculateRetrainLoadFactor s)"
  by (auto simp: calculateRetrainLoadFactor_def readModelConfigFilepath_def Let_def
      split: option.splits)

lemma calculate_idle:
  "modelConfigFile s \<noteq> None \<Longrightarrow> fst (calculateRetrainLoadFactor s) = s"
  by (auto simp: calculateRetrainLoadFactor_def readModelConfigFilepath_def Let_def
      split: option.splits)

lemma train_cases:
  assumes "train lib s = Inr t"
  obtains (noop) jobs where "dbConn s = Some jobs" "preprocess lib jobs = []"
      "t = s\<lparr>dbQueries := dbQueries s @ [SelectTraining]\<rparr>"
    | (fitted) jobs where "dbConn s = Some jobs" "preprocess lib jobs \<noteq> []"
      "model t = Some (Pipeline (fit lib (preprocess lib jobs)))" "dbConn t = dbConn s"
      "modelConfigFile t = Some \<lparr>dbChangeCounter = 0,
          lastTrainedRowCount = int (length (preprocess lib jobs))\<rparr>"
  using assms
  by (auto simp: train_def Let_def writeModelConfigFilepath_def split: option.splits if_splits)

lemma loadFactor_fresh:
  "modelConfigFile s = Some \<lparr>dbChangeCounter = 0, lastTrainedRowCount = n\<rparr> \<Longrightarrow>
     \<not> 0.2 < snd (calculateRetrainLoadFactor s)"
  by (simp add: calculateRetrainLoadFactor_def readModelConfigFilepath_def)

lemma predictAndCacheEverything_again:
  assumes "predictAndCacheEverything lib t = Inr s1"
    and "dbConn t2 = dbConn t" "model t2 = model t" "predictionCache t2 = predictionCache s1"
  shows "\<exists>s2. predictAndCacheEverything lib t2 = Inr s2 \<and> predictionCache s2 = predictionCache s1"
  using assms
  by (auto simp: predictAndCacheEverything_def model_predict_def bind_err_def Let_def
      split: option.splits if_splits pyobject.splits)

text \<open>
  What a call that returned leaves behind: either a model in memory and a load factor not
  above 0.2, or a table without a trainable row, on which the call has ended with
  \<open>_predictAndCacheEverything\<close>.
\<close>

lemma updateCache_Inr:
  assumes u: "updateCache lib s ids = Inr s1"
  shows "modelConfigFile s1 \<noteq> None"
    and "(model s1 \<noteq> None \<and> \<not> 0.2 < snd (calculateRetrainLoadFactor s1))
       \<or> (\<exists>jobs t. dbConn t = Some jobs \<and> dbConn s1 = Some jobs \<and> preprocess lib jobs = []
             \<and> model t = model s1 \<and> predictAndCacheEverything lib t = Inr s1
             \<and> (\<not> 0.2 < snd (calculateRetrainLoadFactor s1) \<longrightarrow> modelPklFile s1 = None))"
    and "dbConn s = Some jobs \<Longrightarrow> preprocess lib jobs \<noteq> [] \<Longrightarrow>
           model s1 \<noteq> None \<and> \<not> 0.2 < snd (calculateRetrainLoadFactor s1)"
proof -
  let ?lf = "\<lambda>s. snd (calculateRetrainLoadFactor s)"
  let ?s0 = "fst (calculateRetrainLoadFactor s)"
  let ?dirty = "filter (\<lambda>x. predictionCache s x = None) ids"
  let ?warm = "model s1 \<noteq> None \<and> \<not> 0.2 < ?lf s1"
  let ?idle = "\<exists>jobs t. dbConn t = Some jobs \<and> dbConn s1 = Some jobs \<and> preprocess lib jobs = []
             \<and> model t = model s1 \<and> predictAndCacheEverything lib t = Inr s1
             \<and> (\<not> 0.2 < ?lf s1 \<longrightarrow> modelPklFile s1 = None)"
  have c0: "modelConfigFile ?s0 \<noteq> None" and lf0: "?lf ?s0 = ?lf s"
    by (rule calculate_config)+
  have after_train: "modelConfigFile s1 \<noteq> None \<and> (?warm \<or> ?idle)
      \<and> (\<forall>jobs. dbConn s = Some jobs \<longrightarrow> preprocess lib jobs \<noteq> [] \<longrightarrow> ?warm)"
    if t: "train lib ?s0 = Inr t" and e: "predictAndCacheEverything lib t = Inr s1"
      and c: "\<not> 0.2 < ?lf s \<longrightarrow> modelPklFile s = None" for t
    using t
  proof (cases rule: train_cases)
    case (noop jobs)
    have dbt: "dbConn t = Some jobs" using noop by simp
    note k = predictAndCacheEverything_Inr(1-4) [OF e dbt]
    have cfg: "modelConfigFile s1 = modelConfigFile ?s0" using k noop by simp
    then have "?lf s1 = ?lf s" using loadFactor_config [OF cfg] lf0 by simp
    moreover have "modelPklFile s1 = modelPklFile s"
      using k noop by (simp add: calculate_fields)
    moreover have "dbConn s = Some jobs" using noop by (simp add: calculate_fields)
    ultimately show ?thesis
      using c0 cfg dbt k e noop(2) c by auto
  next
    case (fitted jobs)
    have dbt: "dbConn t = Some jobs" using fitted by simp
    note k = predictAndCacheEverything_Inr(1-4) [OF e dbt]
    have "modelConfigFile s1 = Some \<lparr>dbChangeCounter = 0,
          lastTrainedRowCount = int (length (preprocess lib jobs))\<rparr>"
      using k fitted by simp
    then have "\<not> 0.2 < ?lf s1" "modelConfigFile s1 \<noteq> None"
      using loadFactor_fresh by auto
    moreover have "model s1 \<noteq> None" using k fitted by simp
    ultimately show ?thesis by simp
  qed
  consider
      (retrain) t where "0.2 < ?lf s" "train lib ?s0 = Inr t"
        "predictAndCacheEverything lib t = Inr s1"
    | (first) t where "\<not> 0.2 < ?lf s" "model s = None" "firstTimeLoadOrTrain lib ?s0 = Inr t"
        "predictAndCacheEverything lib t = Inr s1"
    | (hit) "\<not> 0.2 < ?lf s" "model s \<noteq> None" "s1 = ?s0"
    | (dirty) "\<not> 0.2 < ?lf s" "model s \<noteq> None" "?dirty \<noteq> []"
        "predictAndCacheDirtyIDs lib ?s0 ?dirty = Inr s1"
    using u
    by (auto simp: updateCache_cases Let_def bind_err_def split: if_splits sum.splits)
  then have "modelConfigFile s1 \<noteq> None \<and> (?warm \<or> ?idle)
      \<and> (\<forall>jobs. dbConn s = Some jobs \<longrightarrow> preprocess lib jobs \<noteq> [] \<longrightarrow> ?warm)"
  proof cases
    case retrain
    then show ?thesis using after_train by simp
  next
    case first
    show ?thesis
    proof (cases "modelPklFile s")
      case None
      then have "train lib ?s0 = Inr t"
        using first(3) by (simp add: firstTimeLoadOrTrain_def calculate_fields)
      then show ?thesis using after_train first(4) None by simp
    next
      case (Some f)
      then obtain a where t: "t = ?s0\<lparr>model := Some a\<rparr>"
        using first(3)
        by (auto simp: firstTimeLoadOrTrain_def calculate_fields joblib_load_def bind_err_def
            split: pkl.splits)
      obtain jobs where dbt: "dbConn t = Some jobs"
        using first(4) by (auto simp: predictAndCacheEverything_def split: option.splits)
      note k = predictAndCacheEverything_Inr(1-4) [OF first(4) dbt]
      have cfg: "modelConfigFile s1 = modelConfigFile ?s0" using k t by simp
      then have "?lf s1 = ?lf s" using loadFactor_config [OF cfg] lf0 by simp
      then show ?thesis using first(1) c0 cfg k t by simp
    qed
  next
    case hit
    then show ?thesis using c0 lf0 by (simp add: calculate_fields)
  next
    case dirty
    note k = predictAndCacheDirtyIDs_Inr(3,5) [OF dirty(4,3)]
    have cfg: "modelConfigFile s1 = modelConfigFile ?s0" using k by simp
    then have "?lf s1 = ?lf s" using loadFactor_config [OF cfg] lf0 by simp
    then show ?thesis using dirty(1,2) c0 cfg k by (simp add: calculate_fields)
  qed
  then show "modelConfigFile s1 \<noteq> None" and "?warm \<or> ?idle"
    and "dbConn s = Some jobs \<Longrightarrow> preprocess lib jobs \<noteq> [] \<Longrightarrow> ?warm"
    by blast+
qed

lemma updateCache_warm:
  assumes "model s \<noteq> None" "\<not> 0.2 < snd (calculateRetrainLoadFactor s)"
    and "modelConfigFile s \<noteq> None" "\<forall>i \<in> set ids. predictionCache s i \<noteq> None"
  shows "updateCache lib s ids = Inr s"
proof -
  have "filter (\<lambda>x. predictionCache s x = None) ids = []"
    using assms(4) by (auto simp: filter_empty_conv)
  moreover obtain m where "model s = Some m"
    using assms(1) by auto
  ultimately show ?thesis
    using assms(2,3) by (simp add: updateCache_cases Let_def calculate_idle)
qed

lemma updateCache_again:
  assumes u: "updateCache lib s ids = Inr s1"
    and r: "\<forall>i \<in> set ids. predictionCache s1 i \<noteq> None"
  shows "\<exists>s2. updateCache lib s1 ids = Inr s2 \<and> predictionCache s2 = predictionCache s1"
proof (cases "model s1 \<noteq> None \<and> \<not> 0.2 < snd (calculateRetrainLoadFactor s1)")
  case True
  then show ?thesis
    using updateCache_warm [of s1 ids lib] updateCache_Inr(1) [OF u] r by simp
next
  case False
  with updateCache_Inr(2) [OF u] obtain jobs t where
    db: "dbConn t = Some jobs" "dbConn s1 = Some jobs" and p: "preprocess lib jobs = []"
    and m: "model t = model s1" and e: "predictAndCacheEverything lib t = Inr s1"
    and f: "\<not> 0.2 < snd (calculateRetrainLoadFactor s1) \<longrightarrow> modelPklFile s1 = None"
    by blast
  let ?t2 = "s1\<lparr>dbQueries := dbQueries s1 @ [SelectTraining]\<rparr>"
  have idle: "fst (calculateRetrainLoadFactor s1) = s1"
    using updateCache_Inr(1) [OF u] by (rule calculate_idle)
  have tr: "train lib s1 = Inr ?t2"
    using db(2) p by (simp add: train_def Let_def)
  have "updateCache lib s1 ids = predictAndCacheEverything lib ?t2"
  proof (cases "0.2 < snd (calculateRetrainLoadFactor s1)")
    case True
    then show ?thesis by (simp add: updateCache_cases Let_def idle tr bind_err_def)
  next
    case lf: False
    then have "model s1 = None" "modelPklFile s1 = None" using False f by auto
    then show ?thesis
      using lf by (simp add: updateCache_cases Let_def idle tr bind_err_def
          firstTimeLoadOrTrain_def)
  qed
  moreover have "\<exists>s2. predictAndCacheEverything lib ?t2 = Inr s2
      \<and> predictionCache s2 = predictionCache s1"
    using predictAndCacheEverything_again [OF e, of ?t2] db m by simp
  ultimately show ?thesis by simp
qed

subsection \<open>When \<open>predict\<close> returns\<close>

lemma predictAndCacheEverything_model:
  assumes "dbConn t = Some jobs" "jobs \<noteq> []" "model t = Some (Pipeline m)"
  shows "predictAndCacheEverything lib t =
     Inr (t\<lparr>dbQueries := dbQueries t @ [SelectAllFeatures],
            predictionCache := cachePredictions (map jid jobs)
              (map (\<lambda>j. exp (predict_row lib m (job_type j, hours_worked j))) jobs) Map.empty\<rparr>)"
  using assms
  by (simp add: predictAndCacheEverything_def model_predict_def bind_err_def Let_def comp_def)

lemma train_fits:
  assumes "dbConn s = Some jobs" "preprocess lib jobs \<noteq> []"
  shows "\<exists>t m. train lib s = Inr t \<and> dbConn t = Some jobs \<and> model t = Some (Pipeline m)"
  using assms by (simp add: train_def Let_def writeModelConfigFilepath_def)

text \<open>
  With a trainable row in the table, nothing but a pipeline in memory and nothing but a
  dumped pipeline in \<open>model.pkl\<close>, \<open>predict\<close> returns for every non-empty list of IDs that
  have a row: the dictionary has exactly the requested keys, each with its cache entry.
\<close>

lemma predict_returns_requested:
  assumes ids: "requestedIDs \<noteq> []"
    and db: "dbConn s = Some jobs"
    and rows: "set requestedIDs \<subseteq> jid ` set jobs"
    and tr: "preprocess lib jobs \<noteq> []"
    and mo: "model s \<noteq> Some NotAPipeline"
    and pk: "modelPklFile s \<noteq> Some Unusable" "modelPklFile s \<noteq> Some Unreadable"
  shows "\<exists>s' r. predict lib s requestedIDs = Inr (s', r) \<and> dom r = set requestedIDs
           \<and> (\<forall>i \<in> set requestedIDs. r i = predictionCache s' i)"
proof -
  let ?s0 = "fst (calculateRetrainLoadFactor s)"
  let ?dirty = "filter (\<lambda>x. predictionCache s x = None) requestedIDs"
  have db0: "dbConn ?s0 = Some jobs" using db by (simp add: calculate_fields)
  have ne: "jobs \<noteq> []" using ids rows by auto
  have everything: "\<exists>s'. predictAndCacheEverything lib t = Inr s'
      \<and> set requestedIDs \<subseteq> dom (predictionCache s')"
    if "dbConn t = Some jobs" "model t = Some (Pipeline m)" for t m
    using predictAndCacheEverything_model [OF that(1) ne that(2), of lib] rows
    by (simp add: dom_cachePredictions)
  have trained: "\<exists>s'. bind_err (train lib ?s0) (predictAndCacheEverything lib) = Inr s'
      \<and> set requestedIDs \<subseteq> dom (predictionCache s')"
    using train_fits [OF db0 tr] everything by (auto simp: bind_err_def)
  have "\<exists>s'. updateCache lib s requestedIDs = Inr s'
      \<and> set requestedIDs \<subseteq> dom (predictionCache s')"
  proof (cases "0.2 < snd (calculateRetrainLoadFactor s)")
    case True
    then show ?thesis using trained by (simp add: updateCache_cases Let_def)
  next
    case lf: False
    show ?thesis
    proof (cases "model s")
      case None
      show ?thesis
      proof (cases "modelPklFile s")
        case pkl: None
        then show ?thesis
          using lf None trained
          by (simp add: updateCache_cases Let_def firstTimeLoadOrTrain_def calculate_fields)
      next
        case (Some f)
        then obtain a where a: "modelPklFile s = Some (Artifact a)"
          using pk by (cases f) auto
        have "firstTimeLoadOrTrain lib ?s0 = Inr (?s0\<lparr>model := Some (Pipeline a)\<rparr>)"
          using a by (simp add: firstTimeLoadOrTrain_def calculate_fields joblib_load_def
              bind_err_def)
        moreover have "\<exists>s'. predictAndCacheEverything lib (?s0\<lparr>model := Some (Pipeline a)\<rparr>) = Inr s'
            \<and> set requestedIDs \<subseteq> dom (predictionCache s')"
          using db0 by (intro everything [where m = a]) simp_all
        ultimately show ?thesis
          using lf None by (simp add: updateCache_cases Let_def bind_err_def)
      qed
    next
      case (Some x)
      then obtain m where m: "model s = Some (Pipeline m)"
        using mo by (cases x) auto
      show ?thesis
      proof (cases "?dirty = []")
        case True
        then have "set requestedIDs \<subseteq> dom (predictionCache s)"
          by (auto simp: filter_empty_conv)
        then show ?thesis
          using lf m True by (simp add: updateCache_cases Let_def calculate_fields)
      next
        case False
        let ?data = "filter (\<lambda>j. jid j \<in> set ?dirty) jobs"
        have m0: "model ?s0 = Some (Pipeline m)" using m by (simp add: calculate_fields)
        have "set ?dirty \<subseteq> jid ` set jobs" using rows by auto
        then have data: "jid ` set ?data = set ?dirty" by auto
        have "set ?dirty \<noteq> {}" using False by (simp only: set_empty not_False_eq_True)
        with data have "set ?data \<noteq> {}" by (metis image_empty)
        then have "?data \<noteq> []" by (simp only: set_empty not_False_eq_True)
        then have "predictAndCacheDirtyIDs lib ?s0 ?dirty =
            Inr (?s0\<lparr>dbQueries := dbQueries ?s0 @ [SelectFeaturesByIDs ?dirty],
                     predictionCache := cachePredictions (map jid ?data)
                       (map (\<lambda>j. exp (predict_row lib m (job_type j, hours_worked j))) ?data)
                       (predictionCache ?s0)\<rparr>)"
          using predictAndCacheDirtyIDs_model [OF False db0 m0, of lib] by (simp add: Let_def)
        moreover have "set requestedIDs \<subseteq> set (map jid ?data) \<union> dom (predictionCache ?s0)"
          using data by (auto simp: calculate_fields)
        ultimately show ?thesis
          using lf m False by (simp add: updateCache_cases Let_def dom_cachePredictions)
      qed
    qed
  qed
  then obtain s' where u: "updateCache lib s requestedIDs = Inr s'"
    and c: "set requestedIDs \<subseteq> dom (predictionCache s')"
    by blast
  let ?r = "\<lambda>i. if i \<in> set requestedIDs then predictionCache s' i else None"
  have "returnRequested (predictionCache s') requestedIDs Map.empty = Inr ?r"
    using c by (intro returnRequested_present) auto
  then have "predict lib s requestedIDs = Inr (s', ?r)"
    using ids u by (simp add: predict_def bind_err_def)
  moreover have "dom ?r = set requestedIDs" using c by (auto split: if_splits)
  ultimately show ?thesis by auto
qed

section \<open>Properties\<close>

text \<open>
  C1.  The claim: on a non-empty list of IDs that all have a row in the table, \<open>predict\<close>
  returns a dictionary whose keys are the requested IDs, each with its cache entry.  The
  code does not keep it on a table without a trainable row: from a cold start with one
  unpaid job, \<open>_train\<close> returns at its guard clause and leaves \<open>self.model\<close> at \<open>None\<close>, and
  \<open>_predictAndCacheEverything\<close> then calls \<open>self.model.predict\<close>.
\<close>

theorem predict_unpaid_only:
  "predict example_libraries (cold_start [example_job 1 None]) [1] = Inl AttributeError"
  by (simp add: ml_defs pre_defs example_defs Let_def)

text \<open>
  C2.  The retrain decision depends on the persisted training state only.  The load factor
  that \<open>_calculateRetrainLoadFactor\<close> returns is \<open>dbChangeCounter / lastTrainedRowCount\<close>
  when the row count is positive and 0 otherwise (also when the file is absent, which
  reads as two zeros); \<open>predict\<close> takes its first case, the full retrain, exactly when
  that number is strictly above 0.2, and one of the two other cases otherwise.  With a row
  count of 100 and 19 changes the first case is not taken, and with a row count of 0 it is
  never taken, whatever the counter.
\<close>

theorem retrain_decision:
  "snd (calculateRetrainLoadFactor s) =
     (case modelConfigFile s of
        None \<Rightarrow> 0
      | Some c \<Rightarrow> if lastTrainedRowCount c > 0
                  then real_of_int (dbChangeCounter c) / real_of_int (lastTrainedRowCount c)
                  else 0)
   \<and> (predictCase lf mo = Case1) = (lf > 0.2)
   \<and> updateCache lib s requestedIDs =
       (if 0.2 < snd (calculateRetrainLoadFactor s)
        then bind_err (train lib (fst (calculateRetrainLoadFactor s)))
               (predictAndCacheEverything lib)
        else if model s = None
        then bind_err (firstTimeLoadOrTrain lib (fst (calculateRetrainLoadFactor s)))
               (predictAndCacheEverything lib)
        else if filter (\<lambda>x. predictionCache s x = None) requestedIDs = []
        then Inr (fst (calculateRetrainLoadFactor s))
        else predictAndCacheDirtyIDs lib (fst (calculateRetrainLoadFactor s))
               (filter (\<lambda>x. predictionCache s x = None) requestedIDs))
   \<and> predictCase (snd (calculateRetrainLoadFactor
         (s\<lparr>modelConfigFile := Some \<lparr>dbChangeCounter = 19, lastTrainedRowCount = 100\<rparr>\<rparr>)))
         mo \<noteq> Case1
   \<and> predictCase (snd (calculateRetrainLoadFactor
         (s\<lparr>modelConfigFile := Some \<lparr>dbChangeCounter = n, lastTrainedRowCount = 0\<rparr>\<rparr>)))
         mo \<noteq> Case1"
proof -
  have "snd (calculateRetrainLoadFactor s) =
     (case modelConfigFile s of
        None \<Rightarrow> 0
      | Some c \<Rightarrow> if lastTrainedRowCount c > 0
                  then real_of_int (dbChangeCounter c) / real_of_int (lastTrainedRowCount c)
                  else 0)"
    by (simp add: calculateRetrainLoadFactor_def readModelConfigFilepath_def Let_def
        split: option.splits)
  moreover have "(predictCase lf mo = Case1) = (lf > 0.2)"
    by (simp add: predictCase_def)
  moreover have "predictCase (snd (calculateRetrainLoadFactor
         (s\<lparr>modelConfigFile := Some \<lparr>dbChangeCounter = 19, lastTrainedRowCount = 100\<rparr>\<rparr>)))
         mo \<noteq> Case1"
    by (simp add: calculateRetrainLoadFactor_def readModelConfigFilepath_def predictCase_def)
  moreover have "predictCase (snd (calculateRetrainLoadFactor
         (s\<lparr>modelConfigFile := Some \<lparr>dbChangeCounter = n, lastTrainedRowCount = 0\<rparr>\<rparr>)))
         mo \<noteq> Case1"
    by (simp add: calculateRetrainLoadFactor_def readModelConfigFilepath_def predictCase_def)
  ultimately show ?thesis
    by (simp add: updateCache_cases Let_def)
qed

text \<open>
  C3.  A call of \<open>predict\<close> on a non-empty list, with a load factor above 0.2 and at least one
  row left by the preprocessing, takes the full retrain: both statements over the whole
  table are executed, the model is fitted on the preprocessed rows of all records, the
  fitted model is in memory and in \<open>model.pkl\<close>, the configuration file holds a counter of 0
  and the number of rows fitted on, and the cache is cleared and refilled: its keys are
  exactly the IDs of the table and, IDs being distinct, each value is the exponential of
  the new model's prediction for that row.  The call then returns what the final loop
  reads from this cache.
\<close>

theorem retrain_path:
  assumes ids: "requestedIDs \<noteq> []"
    and db: "dbConn s = Some jobs"
    and lf: "0.2 < snd (calculateRetrainLoadFactor s)"
    and rows: "preprocess lib jobs \<noteq> []"
  shows "\<exists>s'. updateCache lib s requestedIDs = Inr s'
      \<and> predict lib s requestedIDs =
           bind_err (returnRequested (predictionCache s') requestedIDs Map.empty)
             (\<lambda>r. Inr (s', r))
      \<and> model s' = Some (Pipeline (fit lib (preprocess lib jobs)))
      \<and> modelPklFile s' = Some (Artifact (fit lib (preprocess lib jobs)))
      \<and> modelConfigFile s' = Some \<lparr>dbChangeCounter = 0,
            lastTrainedRowCount = int (length (preprocess lib jobs))\<rparr>
      \<and> dbQueries s' = dbQueries s @ [SelectTraining, SelectAllFeatures]
      \<and> dom (predictionCache s') = jid ` set jobs
      \<and> (distinct (map jid jobs) \<longrightarrow>
           (\<forall>j \<in> set jobs. predictionCache s' (jid j) =
              Some (exp (predict_row lib (fit lib (preprocess lib jobs)) (job_type j, hours_worked j)))))"
proof -
  have ne: "jobs \<noteq> []" using rows by (auto simp: preprocess_def quantile_def)
  define m where "m = fit lib (preprocess lib jobs)"
  define s' where "s' = s\<lparr>dbQueries := dbQueries s @ [SelectTraining, SelectAllFeatures],
      model := Some (Pipeline m),
      predictionCache := cachePredictions (map jid jobs)
         (map (\<lambda>j. exp (predict_row lib m (job_type j, hours_worked j))) jobs) Map.empty,
      modelConfigFile := Some \<lparr>dbChangeCounter = 0,
            lastTrainedRowCount = int (length (preprocess lib jobs))\<rparr>,
      modelPklFile := Some (Artifact m)\<rparr>"
  have t: "train lib s = Inr (s\<lparr>dbQueries := dbQueries s @ [SelectTraining], model := Some (Pipeline m),
      modelPklFile := Some (Artifact m),
      modelConfigFile := Some \<lparr>dbChangeCounter = 0,
            lastTrainedRowCount = int (length (preprocess lib jobs))\<rparr>\<rparr>)"
    using db rows by (simp add: train_def Let_def writeModelConfigFilepath_def m_def)
  have u: "updateCache lib s requestedIDs = Inr s'"
    using lf db ne
    by (simp add: updateCache_cases loadFactor_above t bind_err_def predictAndCacheEverything_def
        model_predict_def Let_def s'_def comp_def)
  have p: "predict lib s requestedIDs =
           bind_err (returnRequested (predictionCache s') requestedIDs Map.empty)
             (\<lambda>r. Inr (s', r))"
    using ids by (simp add: predict_def u bind_err_def)
  have c: "predictionCache s' = cachePredictions (map jid jobs)
         (map (\<lambda>j. exp (predict_row lib m (job_type j, hours_worked j))) jobs) Map.empty"
    by (simp add: s'_def)
  have d: "dom (predictionCache s') = jid ` set jobs"
    by (simp add: c dom_cachePredictions)
  have v: "distinct (map jid jobs) \<longrightarrow>
           (\<forall>j \<in> set jobs. predictionCache s' (jid j) =
              Some (exp (predict_row lib m (job_type j, hours_worked j))))"
    by (simp add: c cachePredictions_rows)
  show ?thesis
    using u p d v unfolding m_def[symmetric] by (intro exI[of _ s']) (simp add: s'_def)
qed

text \<open>
  At a concrete input: ten rows at the last training and three changes since, a table of
  one paid and one unpaid job.  The retrain fits on the one paid row and caches both jobs.
\<close>

theorem retrain_path_witness:
  "[2] \<noteq> ([] :: int list)
   \<and> dbConn (example_state [example_job 1 (Some 10), example_job 2 None] None Map.empty
          (Some \<lparr>dbChangeCounter = 3, lastTrainedRowCount = 10\<rparr>) None)
       = Some [example_job 1 (Some 10), example_job 2 None]
   \<and> 0.2 < snd (calculateRetrainLoadFactor
          (example_state [example_job 1 (Some 10), example_job 2 None] None Map.empty
             (Some \<lparr>dbChangeCounter = 3, lastTrainedRowCount = 10\<rparr>) None))
   \<and> preprocess example_libraries [example_job 1 (Some 10), example_job 2 None] \<noteq> []
   \<and> (\<exists>s'. updateCache example_libraries
          (example_state [example_job 1 (Some 10), example_job 2 None] None Map.empty
             (Some \<lparr>dbChangeCounter = 3, lastTrainedRowCount = 10\<rparr>) None) [2] = Inr s'
        \<and> model s' = Some (Pipeline 1)
        \<and> modelPklFile s' = Some (Artifact 1)
        \<and> modelConfigFile s' = Some \<lparr>dbChangeCounter = 0, lastTrainedRowCount = 1\<rparr>
        \<and> dbQueries s' = [SelectTraining, SelectAllFeatures]
        \<and> dom (predictionCache s') = {1, 2})"
proof -
  let ?jobs = "[example_job 1 (Some 10), example_job 2 None]"
  let ?s = "example_state ?jobs None Map.empty
             (Some \<lparr>dbChangeCounter = 3, lastTrainedRowCount = 10\<rparr>) None"
  have h1: "[2] \<noteq> ([] :: int list)" by simp
  have h2: "dbConn ?s = Some ?jobs" by (simp add: example_defs)
  have h3: "0.2 < snd (calculateRetrainLoadFactor ?s)"
    by (simp add: example_defs calculateRetrainLoadFactor_def readModelConfigFilepath_def)
  have n: "preprocess example_libraries ?jobs = [((''Tutoring'', 2), ln 10)]"
    by (simp add: example_defs pre_defs Let_def)
  have h4: "preprocess example_libraries ?jobs \<noteq> []" by (simp add: n)
  have q: "dbQueries ?s = []" by (simp add: example_defs)
  from retrain_path [OF h1 h2 h3 h4, unfolded n q]
  show ?thesis
    using h2 h3 h4
    by (auto simp: example_libraries_def example_job_def)
qed

text \<open>
  C4.  When the preprocessing leaves no row, \<open>_train\<close> returns at its guard clause: it has
  sent its one statement to the database and nothing else has changed.  The model in
  memory is the one from before, \<open>model.pkl\<close> is not written, and the configuration file,
  with its change counter and its row count, is as it was.
\<close>

theorem train_no_rows:
  assumes "dbConn s = Some jobs" "preprocess lib jobs = []"
  shows "\<exists>s'. train lib s = Inr s'
           \<and> s' = s\<lparr>dbQueries := dbQueries s @ [SelectTraining]\<rparr>
           \<and> model s' = model s
           \<and> modelPklFile s' = modelPklFile s
           \<and> modelConfigFile s' = modelConfigFile s
           \<and> predictionCache s' = predictionCache s"
  using assms by (simp add: train_def Let_def)

text \<open>
  At a concrete input: a model fitted on four rows is in memory and on disk, five changes
  are counted, and the table holds one unpaid job and one job with a pay of zero.
\<close>

theorem train_no_rows_witness:
  "dbConn (example_state [example_job 1 None, example_job 2 (Some 0)] (Some (Pipeline 4)) Map.empty
       (Some \<lparr>dbChangeCounter = 5, lastTrainedRowCount = 4\<rparr>) (Some (Artifact 4)))
     = Some [example_job 1 None, example_job 2 (Some 0)]
   \<and> preprocess example_libraries [example_job 1 None, example_job 2 (Some 0)] = []
   \<and> (\<exists>s'. train example_libraries
         (example_state [example_job 1 None, example_job 2 (Some 0)] (Some (Pipeline 4)) Map.empty
            (Some \<lparr>dbChangeCounter = 5, lastTrainedRowCount = 4\<rparr>) (Some (Artifact 4))) = Inr s'
        \<and> model s' = Some (Pipeline 4)
        \<and> modelPklFile s' = Some (Artifact 4)
        \<and> modelConfigFile s' = Some \<lparr>dbChangeCounter = 5, lastTrainedRowCount = 4\<rparr>)"
proof -
  let ?jobs = "[example_job 1 None, example_job 2 (Some 0)]"
  let ?s = "example_state ?jobs (Some (Pipeline 4)) Map.empty
       (Some \<lparr>dbChangeCounter = 5, lastTrainedRowCount = 4\<rparr>) (Some (Artifact 4))"
  have h1: "dbConn ?s = Some ?jobs" by (simp add: example_defs)
  have h2: "preprocess example_libraries ?jobs = []" by (simp add: example_defs pre_defs Let_def)
  have f: "model ?s = Some (Pipeline 4)" "modelPklFile ?s = Some (Artifact 4)"
    "modelConfigFile ?s = Some \<lparr>dbChangeCounter = 5, lastTrainedRowCount = 4\<rparr>"
    by (simp_all add: example_defs)
  from train_no_rows [OF h1 h2] f h1 h2
  show ?thesis by auto
qed

text \<open>
  C5.  The preprocessing of \<open>_train\<close> keeps exactly the rows the specification describes:
  those whose pay is present and not zero and whose log-pay lies within
  \<open>[Q1 - 1.5 IQR, Q3 + 1.5 IQR]\<close>, both bounds included, the quartiles being those of the
  log-pays of the rows with a pay that is present and not zero; each row is handed to the
  fit with its features and its log-pay.  This holds however the logarithm, the
  interpolation and the float arithmetic round.  When at least one row is kept, the model
  is fitted on the kept rows and the row count written to the configuration file is their
  number.  For the pays 10, 10, 10, 10 and 10000 the fifth row is dropped and four rows
  are fitted on; this uses of the libraries only that \<open>log 10 < log 10000\<close>, that a
  quantile at a data point (the interpolation between the point and itself at the
  fraction 0) is that data point, and that \<open>x - x = 0\<close>, \<open>1.5 * 0 = 0\<close>, \<open>x - 0 = x\<close> and
  \<open>x + 0 = x\<close>, all of which floats satisfy.
\<close>

theorem training_rows:
  "preprocess lib jobs =
     map (\<lambda>j. ((job_type j, hours_worked j), the (logLabel lib j))) (tukey_rows_spec lib jobs)
   \<and> (dbConn s = Some jobs \<longrightarrow> preprocess lib jobs \<noteq> [] \<longrightarrow>
        (\<exists>s'. train lib s = Inr s'
           \<and> model s' = Some (Pipeline (fit lib (preprocess lib jobs)))
           \<and> modelConfigFile s' = Some \<lparr>dbChangeCounter = 0,
                lastTrainedRowCount = int (length (tukey_rows_spec lib jobs))\<rparr>))
   \<and> (map pay jobs = [Some 10, Some 10, Some 10, Some 10, Some 10000] \<longrightarrow>
        flog lib 10 < flog lib 10000 \<longrightarrow>
        (\<forall>a. lerp lib a a 0 = a) \<longrightarrow>
        (\<forall>a. fsub lib a a = 0) \<longrightarrow> fmul lib 1.5 0 = 0 \<longrightarrow>
        (\<forall>a. fsub lib a 0 = a) \<longrightarrow> (\<forall>a. fadd lib a 0 = a) \<longrightarrow>
        tukey_rows_spec lib jobs = butlast jobs \<and> length (preprocess lib jobs) = 4)"
proof -
  have r: "preprocess lib jobs =
     map (\<lambda>j. ((job_type j, hours_worked j), the (logLabel lib j))) (tukey_rows_spec lib jobs)"
    by (rule preprocess_refines_spec)
  then have l: "length (preprocess lib jobs) = length (tukey_rows_spec lib jobs)"
    by simp
  have t: "\<exists>s'. train lib s = Inr s'
           \<and> model s' = Some (Pipeline (fit lib (preprocess lib jobs)))
           \<and> modelConfigFile s' = Some \<lparr>dbChangeCounter = 0,
                lastTrainedRowCount = int (length (tukey_rows_spec lib jobs))\<rparr>"
    if "dbConn s = Some jobs" "preprocess lib jobs \<noteq> []"
    using that by (simp add: train_def Let_def writeModelConfigFilepath_def l)
  have e: "tukey_rows_spec lib jobs = butlast jobs \<and> length (preprocess lib jobs) = 4"
    if pays: "map pay jobs = [Some 10, Some 10, Some 10, Some 10, Some 10000]"
      and lt: "flog lib 10 < flog lib 10000"
      and laws: "\<forall>a. lerp lib a a 0 = a" "\<forall>a. fsub lib a a = 0" "fmul lib 1.5 0 = 0"
        "\<forall>a. fsub lib a 0 = a" "\<forall>a. fadd lib a 0 = a"
  proof -
    from pays obtain j1 j2 j3 j4 j5 where j: "jobs = [j1, j2, j3, j4, j5]"
      and p: "pay j1 = Some 10" "pay j2 = Some 10" "pay j3 = Some 10" "pay j4 = Some 10"
        "pay j5 = Some 10000"
      by (auto simp: map_eq_Cons_conv)
    have le: "flog lib 10 \<le> flog lib 10000" "\<not> flog lib 10000 \<le> flog lib 10"
      using lt by simp_all
    have srt: "sort [flog lib 10, flog lib 10, flog lib 10, flog lib 10, flog lib 10000]
        = [flog lib 10, flog lib 10, flog lib 10, flog lib 10, flog lib 10000]"
      using le by simp
    have q1: "quantile lib [flog lib 10, flog lib 10, flog lib 10, flog lib 10, flog lib 10000]
        (1/4) = Some (flog lib 10)"
      using laws(1) by (simp add: quantile_def srt Let_def)
    have q3: "quantile lib [flog lib 10, flog lib 10, flog lib 10, flog lib 10, flog lib 10000]
        (3/4) = Some (flog lib 10)"
      using laws(1) by (simp add: quantile_def srt Let_def)
    have b: "tukey_rows_spec lib jobs = butlast jobs"
      using laws(2-5) le
      by (simp add: j p tukey_rows_spec_def logLabel_def np_log_def Let_def
          List.map_filter_def q1 q3)
    have "length (butlast jobs) = 4" by (simp add: j)
    with b l show ?thesis by simp
  qed
  show ?thesis using r t e by blast
qed

text \<open>At the five pays of the specification, from a cold start: four rows are fitted on.\<close>

theorem training_rows_witness:
  "dbConn (cold_start [example_job 1 (Some 10), example_job 2 (Some 10), example_job 3 (Some 10),
       example_job 4 (Some 10), example_job 5 (Some 10000)])
     = Some [example_job 1 (Some 10), example_job 2 (Some 10), example_job 3 (Some 10),
         example_job 4 (Some 10), example_job 5 (Some 10000)]
   \<and> map pay [example_job 1 (Some 10), example_job 2 (Some 10), example_job 3 (Some 10),
         example_job 4 (Some 10), example_job 5 (Some 10000)]
     = [Some 10, Some 10, Some 10, Some 10, Some 10000]
   \<and> flog example_libraries 10 < flog example_libraries 10000
   \<and> (\<forall>a. lerp example_libraries a a 0 = a)
   \<and> (\<forall>a. fsub example_libraries a a = 0)
   \<and> fmul example_libraries 1.5 0 = 0
   \<and> (\<forall>a. fsub example_libraries a 0 = a)
   \<and> (\<forall>a. fadd example_libraries a 0 = a)
   \<and> preprocess example_libraries [example_job 1 (Some 10), example_job 2 (Some 10),
         example_job 3 (Some 10), example_job 4 (Some 10), example_job 5 (Some 10000)] \<noteq> []
   \<and> (\<exists>s'. train example_libraries
         (cold_start [example_job 1 (Some 10), example_job 2 (Some 10), example_job 3 (Some 10),
            example_job 4 (Some 10), example_job 5 (Some 10000)]) = Inr s'
        \<and> model s' = Some (Pipeline 4)
        \<and> modelConfigFile s' = Some \<lparr>dbChangeCounter = 0, lastTrainedRowCount = 4\<rparr>)"
proof -
  let ?jobs = "[example_job 1 (Some 10), example_job 2 (Some 10), example_job 3 (Some 10),
       example_job 4 (Some 10), example_job 5 (Some 10000)]"
  have h1: "dbConn (cold_start ?jobs) = Some ?jobs" by (simp add: example_defs)
  have h2: "map pay ?jobs = [Some 10, Some 10, Some 10, Some 10, Some 10000]"
    by (simp add: example_defs)
  have lt: "flog example_libraries 10 < flog example_libraries 10000"
    by (simp add: example_libraries_def)
  have laws: "\<forall>a. lerp example_libraries a a 0 = a" "\<forall>a. fsub example_libraries a a = 0"
    "fmul example_libraries 1.5 0 = 0" "\<forall>a. fsub example_libraries a 0 = a"
    "\<forall>a. fadd example_libraries a 0 = a"
    by (simp_all add: example_libraries_def)
  note t = training_rows [of example_libraries ?jobs "cold_start ?jobs"]
  from t h2 lt laws
  have n: "length (preprocess example_libraries ?jobs) = 4"
    and b: "tukey_rows_spec example_libraries ?jobs = butlast ?jobs"
    by blast+
  from n have h3: "preprocess example_libraries ?jobs \<noteq> []" by auto
  from t h1 h3 obtain s' where "train example_libraries (cold_start ?jobs) = Inr s'"
    "model s' = Some (Pipeline (fit example_libraries (preprocess example_libraries ?jobs)))"
    "modelConfigFile s' = Some \<lparr>dbChangeCounter = 0,
        lastTrainedRowCount = int (length (tukey_rows_spec example_libraries ?jobs))\<rparr>"
    by blast
  moreover have "fit example_libraries = length"
    by (simp add: example_libraries_def)
  then have "fit example_libraries (preprocess example_libraries ?jobs) = 4"
    by (simp add: n)
  ultimately have "train example_libraries (cold_start ?jobs) = Inr s' \<and> model s' = Some (Pipeline 4)
      \<and> modelConfigFile s' = Some \<lparr>dbChangeCounter = 0, lastTrainedRowCount = 4\<rparr>"
    by (simp add: b)
  then show ?thesis using h1 h2 h3 lt laws by blast
qed

text \<open>
  C6.  The claim as stated fails on an artifact that exists and cannot be used: the cold
  start loads whatever \<open>model.pkl\<close> holds, without a check and without training.  On a
  file that cannot be unpickled the error of \<open>joblib.load\<close> leaves \<open>predict\<close>; on a file
  that unpickles to something that is not a pipeline, that object becomes \<open>self.model\<close>
  and \<open>self.model.predict\<close> raises.
\<close>

theorem incompatible_artifact_raises:
  "predict example_libraries
     (example_state [example_job 1 (Some 10)] None Map.empty None (Some Unreadable)) [1]
   = Inl UnpicklingError
   \<and> predict example_libraries
     (example_state [example_job 1 (Some 10)] None Map.empty None (Some Unusable)) [1]
   = Inl AttributeError"
  by (simp add: ml_defs pre_defs example_defs Let_def)

text \<open>
  C6, as amended.  In a cold start (a non-empty request, no model in memory, a load factor
  not above 0.2): when \<open>model.pkl\<close> is missing, \<open>predict\<close> trains from scratch, with the same
  \<open>_train\<close> as the retrain, and then predicts and caches every row; when \<open>model.pkl\<close>
  exists, what \<open>joblib.load\<close> returns becomes the model as it is and every row is
  predicted with it, and no training takes place: a call that completes has sent the one
  statement for the features and not the one for the training.  A pipeline dumped by an
  earlier training is loaded in this way.
\<close>

theorem cold_start_path:
  assumes ids: "requestedIDs \<noteq> []"
    and m: "model s = None"
    and lf: "\<not> 0.2 < snd (calculateRetrainLoadFactor s)"
  shows "(modelPklFile s = None \<longrightarrow>
            updateCache lib s requestedIDs =
              bind_err (train lib (fst (calculateRetrainLoadFactor s)))
                (predictAndCacheEverything lib))
       \<and> (\<forall>f. modelPklFile s = Some f \<longrightarrow>
            updateCache lib s requestedIDs =
              bind_err (joblib_load f)
                (\<lambda>loaded. predictAndCacheEverything lib
                   (fst (calculateRetrainLoadFactor s)\<lparr>model := Some loaded\<rparr>)))
       \<and> (\<forall>f s'. modelPklFile s = Some f \<longrightarrow> updateCache lib s requestedIDs = Inr s' \<longrightarrow>
            dbQueries s' = dbQueries s @ [SelectAllFeatures])
       \<and> (\<forall>a. modelPklFile s = Some (Artifact a) \<longrightarrow>
            updateCache lib s requestedIDs =
              predictAndCacheEverything lib
                (fst (calculateRetrainLoadFactor s)\<lparr>model := Some (Pipeline a)\<rparr>))"
proof -
  let ?s0 = "fst (calculateRetrainLoadFactor s)"
  have u: "updateCache lib s requestedIDs =
      bind_err (firstTimeLoadOrTrain lib ?s0) (predictAndCacheEverything lib)"
    using m lf by (simp add: updateCache_cases Let_def)
  have a: "updateCache lib s requestedIDs =
      bind_err (train lib ?s0) (predictAndCacheEverything lib)"
    if "modelPklFile s = None"
    using that by (simp add: u firstTimeLoadOrTrain_def calculate_fields)
  have b: "updateCache lib s requestedIDs =
      bind_err (joblib_load f)
        (\<lambda>loaded. predictAndCacheEverything lib (?s0\<lparr>model := Some loaded\<rparr>))"
    if "modelPklFile s = Some f" for f
    using that
    by (simp add: u firstTimeLoadOrTrain_def calculate_fields bind_err_def split: sum.splits)
  have c: "dbQueries s' = dbQueries s @ [SelectAllFeatures]"
    if f: "modelPklFile s = Some f" and r: "updateCache lib s requestedIDs = Inr s'" for f s'
  proof -
    from r b [OF f] obtain loaded where
      e: "predictAndCacheEverything lib (?s0\<lparr>model := Some loaded\<rparr>) = Inr s'"
      by (auto simp: bind_err_def split: sum.splits)
    then obtain jobs where "dbConn (?s0\<lparr>model := Some loaded\<rparr>) = Some jobs"
      by (auto simp: predictAndCacheEverything_def split: option.splits)
    from predictAndCacheEverything_Inr(5) [OF e this] show ?thesis
      by (simp add: calculate_fields)
  qed
  have d: "updateCache lib s requestedIDs =
      predictAndCacheEverything lib (?s0\<lparr>model := Some (Pipeline a)\<rparr>)"
    if "modelPklFile s = Some (Artifact a)" for a
    using b [OF that] by (simp add: joblib_load_def bind_err_def)
  show ?thesis using a b c d by blast
qed

text \<open>
  At concrete inputs: a cold start with no file on disk and one paid job trains on that
  job and returns its prediction; with a pipeline on disk it loads it, sends the one
  statement for the features and returns the prediction.
\<close>

theorem cold_start_path_witness:
  "[1] \<noteq> ([] :: int list)
   \<and> model (cold_start [example_job 1 (Some 10)]) = None
   \<and> \<not> 0.2 < snd (calculateRetrainLoadFactor (cold_start [example_job 1 (Some 10)]))
   \<and> modelPklFile (cold_start [example_job 1 (Some 10)]) = None
   \<and> updateCache example_libraries (cold_start [example_job 1 (Some 10)]) [1] =
        bind_err (train example_libraries
                   (fst (calculateRetrainLoadFactor (cold_start [example_job 1 (Some 10)]))))
          (predictAndCacheEverything example_libraries)
   \<and> (\<exists>s'. predict example_libraries (cold_start [example_job 1 (Some 10)]) [1] = Inr (s', [1 \<mapsto> 1])
         \<and> model s' = Some (Pipeline 1)
         \<and> modelConfigFile s' = Some \<lparr>dbChangeCounter = 0, lastTrainedRowCount = 1\<rparr>)
   \<and> model (example_state [example_job 1 (Some 10)] None Map.empty None (Some (Artifact 7))) = None
   \<and> \<not> 0.2 < snd (calculateRetrainLoadFactor
         (example_state [example_job 1 (Some 10)] None Map.empty None (Some (Artifact 7))))
   \<and> modelPklFile (example_state [example_job 1 (Some 10)] None Map.empty None (Some (Artifact 7)))
        = Some (Artifact 7)
   \<and> (\<exists>s'. updateCache example_libraries
          (example_state [example_job 1 (Some 10)] None Map.empty None (Some (Artifact 7))) [1]
          = Inr s'
        \<and> model s' = Some (Pipeline 7)
        \<and> dbQueries s' = [SelectAllFeatures])"
proof -
  let ?s = "cold_start [example_job 1 (Some 10)]"
  have h1: "[1] \<noteq> ([] :: int list)" by simp
  have h2: "model ?s = None" by (simp add: example_defs)
  have h3: "\<not> 0.2 < snd (calculateRetrainLoadFactor ?s)"
    by (simp add: example_defs calculateRetrainLoadFactor_def readModelConfigFilepath_def
        Let_def)
  have h4: "modelPklFile ?s = None" by (simp add: example_defs)
  from cold_start_path [OF h1 h2 h3, of example_libraries] h4
  have u: "updateCache example_libraries ?s [1] =
        bind_err (train example_libraries (fst (calculateRetrainLoadFactor ?s)))
          (predictAndCacheEverything example_libraries)"
    by blast
  have p: "\<exists>s'. predict example_libraries ?s [1] = Inr (s', [1 \<mapsto> 1])
         \<and> model s' = Some (Pipeline 1)
         \<and> modelConfigFile s' = Some \<lparr>dbChangeCounter = 0, lastTrainedRowCount = 1\<rparr>"
    by (simp add: ml_defs pre_defs example_defs Let_def)
  let ?t = "example_state [example_job 1 (Some 10)] None Map.empty None (Some (Artifact 7))"
  have g2: "model ?t = None" by (simp add: example_defs)
  have g3: "\<not> 0.2 < snd (calculateRetrainLoadFactor ?t)"
    by (simp add: example_defs calculateRetrainLoadFactor_def readModelConfigFilepath_def
        Let_def)
  have g4: "modelPklFile ?t = Some (Artifact 7)" and q: "dbQueries ?t = []"
    by (simp_all add: example_defs)
  have r: "\<exists>s'. updateCache example_libraries ?t [1] = Inr s' \<and> model s' = Some (Pipeline 7)"
    by (simp add: ml_defs pre_defs example_defs Let_def)
  then obtain s' where s': "updateCache example_libraries ?t [1] = Inr s'"
    "model s' = Some (Pipeline 7)"
    by blast
  from cold_start_path [OF h1 g2 g3, of example_libraries] g4 s'(1)
  have "dbQueries s' = dbQueries ?t @ [SelectAllFeatures]"
    by blast
  with s' q have l: "\<exists>s'. updateCache example_libraries ?t [1] = Inr s'
      \<and> model s' = Some (Pipeline 7) \<and> dbQueries s' = [SelectAllFeatures]"
    by auto
  show ?thesis using h1 h2 h3 h4 u p g2 g3 g4 l by blast
qed

text \<open>
  C7.  In the third case of \<open>predict\<close> (a model in memory, a load factor not above 0.2) the
  dirty IDs are the requested IDs that are not keys of the cache.  When there is none, the
  database is not queried.  Otherwise one statement is sent, \<open>... WHERE id IN (...)\<close>
  with exactly the dirty IDs as its parameters, and it returns when one of them has a row.
  Every cache entry of an ID outside the dirty IDs is as before.  So after
  \<open>markDirtyIDs([x])\<close>, \<open>predict([x])\<close> fetches the features of \<open>x\<close> again, and
  \<open>predict([y])\<close> for a cached \<open>y\<close> other than \<open>x\<close> returns the cached value and sends
  nothing to the database.
\<close>

theorem incremental_path:
  assumes m: "model s = Some (Pipeline m)"
    and lf: "\<not> 0.2 < snd (calculateRetrainLoadFactor s)"
  shows "(set requestedIDs \<subseteq> dom (predictionCache s) \<longrightarrow>
            (\<exists>s'. updateCache lib s requestedIDs = Inr s' \<and> dbQueries s' = dbQueries s))
    \<and> (\<forall>s'. updateCache lib s requestedIDs = Inr s' \<longrightarrow>
          dbQueries s' = dbQueries s @
             (if filter (\<lambda>x. predictionCache s x = None) requestedIDs = [] then []
              else [SelectFeaturesByIDs (filter (\<lambda>x. predictionCache s x = None) requestedIDs)])
          \<and> set (filter (\<lambda>x. predictionCache s x = None) requestedIDs)
              = set requestedIDs - dom (predictionCache s)
          \<and> (\<forall>k. k \<notin> set requestedIDs - dom (predictionCache s) \<longrightarrow>
                 predictionCache s' k = predictionCache s k))
    \<and> (\<forall>jobs. dbConn s = Some jobs \<longrightarrow>
          (\<exists>j \<in> set jobs. jid j \<in> set requestedIDs - dom (predictionCache s)) \<longrightarrow>
          (\<exists>s'. updateCache lib s requestedIDs = Inr s'))
    \<and> (\<forall>jobs x. dbConn s = Some jobs \<longrightarrow> x \<in> jid ` set jobs \<longrightarrow>
          (\<exists>s' r. predict lib (markDirtyIDs s [x]) [x] = Inr (s', r)
             \<and> dbQueries s' = dbQueries s @ [SelectFeaturesByIDs [x]]))
    \<and> (\<forall>x y v. y \<noteq> x \<longrightarrow> predictionCache s y = Some v \<longrightarrow>
          (\<exists>s'. predict lib (markDirtyIDs s [x]) [y] = Inr (s', [y \<mapsto> v])
             \<and> dbQueries s' = dbQueries s))"
proof -
  let ?s1 = "fst (calculateRetrainLoadFactor s)"
  let ?dirty = "filter (\<lambda>x. predictionCache s x = None) requestedIDs"
  have ds: "set ?dirty = set requestedIDs - dom (predictionCache s)"
    by auto
  have u: "updateCache lib s requestedIDs =
     (if ?dirty = [] then Inr ?s1 else predictAndCacheDirtyIDs lib ?s1 ?dirty)"
    using m lf by (simp add: updateCache_cases Let_def)
  have a: "\<exists>s'. updateCache lib s requestedIDs = Inr s' \<and> dbQueries s' = dbQueries s"
    if "set requestedIDs \<subseteq> dom (predictionCache s)"
  proof -
    have "?dirty = []" using that by (auto simp: filter_empty_conv)
    then show ?thesis by (simp add: u calculate_fields)
  qed
  have b: "dbQueries s' = dbQueries s @ (if ?dirty = [] then [] else [SelectFeaturesByIDs ?dirty])
          \<and> set ?dirty = set requestedIDs - dom (predictionCache s)
          \<and> (\<forall>k. k \<notin> set requestedIDs - dom (predictionCache s) \<longrightarrow>
                 predictionCache s' k = predictionCache s k)"
    if "updateCache lib s requestedIDs = Inr s'" for s'
  proof (cases "?dirty = []")
    case True
    then show ?thesis using that u ds by (auto simp: calculate_fields)
  next
    case False
    then have "predictAndCacheDirtyIDs lib ?s1 ?dirty = Inr s'"
      using that u by simp
    from predictAndCacheDirtyIDs_Inr(1,2) [OF this False] False
    show ?thesis by (auto simp: calculate_fields)
  qed
  have c: "\<exists>s'. updateCache lib s requestedIDs = Inr s'"
    if "dbConn s = Some jobs" "\<exists>j \<in> set jobs. jid j \<in> set requestedIDs - dom (predictionCache s)"
    for jobs
  proof -
    have ne: "?dirty \<noteq> []" using that(2) by (auto simp: filter_empty_conv)
    have "filter (\<lambda>j. jid j \<in> set ?dirty) jobs \<noteq> []"
      using that(2) by (auto simp: filter_empty_conv)
    then show ?thesis
      using ne that(1) m
      by (simp add: u predictAndCacheDirtyIDs_model [where jobs = jobs and m = m]
          calculate_fields Let_def)
  qed
  have d: "\<exists>s' r. predict lib (markDirtyIDs s [x]) [x] = Inr (s', r)
           \<and> dbQueries s' = dbQueries s @ [SelectFeaturesByIDs [x]]"
    if db: "dbConn s = Some jobs" and x: "x \<in> jid ` set jobs" for jobs x
  proof -
    let ?s0 = "markDirtyIDs s [x]"
    let ?t = "fst (calculateRetrainLoadFactor ?s0)"
    let ?data = "filter (\<lambda>j. jid j \<in> set [x]) jobs"
    let ?c = "cachePredictions (map jid ?data)
                (map (\<lambda>j. exp (predict_row lib m (job_type j, hours_worked j))) ?data)
                (predictionCache ?t)"
    have lf0: "\<not> 0.2 < snd (calculateRetrainLoadFactor ?s0)"
      using lf loadFactor_config [of ?s0 s] by (simp add: markDirtyIDs_fields)
    have ne: "?data \<noteq> []" using x by (auto simp: filter_empty_conv)
    have u0: "updateCache lib ?s0 [x] =
        Inr (?t\<lparr>dbQueries := dbQueries ?t @ [SelectFeaturesByIDs [x]], predictionCache := ?c\<rparr>)"
      using lf0 m db ne
      by (simp add: updateCache_cases markDirtyIDs_fields markDirtyIDs_cache Let_def
          predictAndCacheDirtyIDs_model [where jobs = jobs and m = m] calculate_fields)
    have "x \<in> dom ?c"
      using x by (subst dom_cachePredictions) auto
    then obtain v where "?c x = Some v" by blast
    then show ?thesis
      by (simp add: predict_def u0 bind_err_def calculate_fields markDirtyIDs_fields)
  qed
  have e: "\<exists>s'. predict lib (markDirtyIDs s [x]) [y] = Inr (s', [y \<mapsto> v])
           \<and> dbQueries s' = dbQueries s"
    if y: "y \<noteq> x" "predictionCache s y = Some v" for x y v
  proof -
    let ?s0 = "markDirtyIDs s [x]"
    have lf0: "\<not> 0.2 < snd (calculateRetrainLoadFactor ?s0)"
      using lf loadFactor_config [of ?s0 s] by (simp add: markDirtyIDs_fields)
    have u0: "updateCache lib ?s0 [y] = Inr (fst (calculateRetrainLoadFactor ?s0))"
      using lf0 m y
      by (simp add: updateCache_cases markDirtyIDs_fields markDirtyIDs_cache Let_def)
    show ?thesis
      using y
      by (simp add: predict_def u0 bind_err_def calculate_fields markDirtyIDs_fields
          markDirtyIDs_cache)
  qed
  show ?thesis using a b c d e by blast
qed

text \<open>
  At a concrete input: a model in memory, no change counted, a table of two jobs whose
  predictions 5 and 7 are cached.  After \<open>markDirtyIDs([1])\<close>, \<open>predict([1])\<close> sends the one
  statement for ID 1, and \<open>predict([2])\<close> returns the cached 7 and sends nothing.
\<close>

theorem incremental_path_witness:
  "model (example_state [example_job 1 (Some 10), example_job 2 None] (Some (Pipeline 1)) [1 \<mapsto> 5, 2 \<mapsto> 7]
       (Some \<lparr>dbChangeCounter = 0, lastTrainedRowCount = 1\<rparr>) (Some (Artifact 1))) = Some (Pipeline 1)
   \<and> \<not> 0.2 < snd (calculateRetrainLoadFactor
       (example_state [example_job 1 (Some 10), example_job 2 None] (Some (Pipeline 1)) [1 \<mapsto> 5, 2 \<mapsto> 7]
          (Some \<lparr>dbChangeCounter = 0, lastTrainedRowCount = 1\<rparr>) (Some (Artifact 1))))
   \<and> (\<exists>s' r. predict example_libraries (markDirtyIDs
         (example_state [example_job 1 (Some 10), example_job 2 None] (Some (Pipeline 1)) [1 \<mapsto> 5, 2 \<mapsto> 7]
            (Some \<lparr>dbChangeCounter = 0, lastTrainedRowCount = 1\<rparr>) (Some (Artifact 1))) [1]) [1]
           = Inr (s', r)
         \<and> dbQueries s' = [SelectFeaturesByIDs [1]])
   \<and> (\<exists>s'. predict example_libraries (markDirtyIDs
         (example_state [example_job 1 (Some 10), example_job 2 None] (Some (Pipeline 1)) [1 \<mapsto> 5, 2 \<mapsto> 7]
            (Some \<lparr>dbChangeCounter = 0, lastTrainedRowCount = 1\<rparr>) (Some (Artifact 1))) [1]) [2]
           = Inr (s', [2 \<mapsto> 7])
         \<and> dbQueries s' = [])"
proof -
  let ?jobs = "[example_job 1 (Some 10), example_job 2 None]"
  let ?s = "example_state ?jobs (Some (Pipeline 1)) [1 \<mapsto> 5, 2 \<mapsto> 7]
       (Some \<lparr>dbChangeCounter = 0, lastTrainedRowCount = 1\<rparr>) (Some (Artifact 1))"
  have h1: "model ?s = Some (Pipeline 1)" by (simp add: example_defs)
  have h2: "\<not> 0.2 < snd (calculateRetrainLoadFactor ?s)"
    by (simp add: example_defs calculateRetrainLoadFactor_def readModelConfigFilepath_def)
  have db: "dbConn ?s = Some ?jobs" and q: "dbQueries ?s = []"
    and c: "predictionCache ?s 2 = Some 7"
    by (simp_all add: example_defs)
  have x: "1 \<in> jid ` set ?jobs" by (simp add: example_defs)
  note t = incremental_path [OF h1 h2, of "[]" example_libraries, unfolded q]
  from t db x have "\<exists>s' r. predict example_libraries (markDirtyIDs ?s [1]) [1] = Inr (s', r)
         \<and> dbQueries s' = [] @ [SelectFeaturesByIDs [1]]"
    by blast
  moreover have ne: "(2::int) \<noteq> 1" by simp
  from t ne c have "\<exists>s'. predict example_libraries (markDirtyIDs ?s [1]) [2] = Inr (s', [2 \<mapsto> 7])
         \<and> dbQueries s' = []"
    by blast
  ultimately show ?thesis using h1 h2 by simp
qed

text \<open>
  C8.  The claim as stated fails when the first call's retrain finds no trainable row: the
  counters are kept, the load factor stays above 0.2, and the second call queries the
  database again.  Here a model is in memory, five changes are counted against four rows,
  and the table holds one unpaid job: both calls return the same dictionary, and the
  second one sends the two statements over the whole table once more.
\<close>

theorem predict_twice_refetches:
  "predict example_libraries
     (example_state [example_job 1 None] (Some (Pipeline 4)) Map.empty
        (Some \<lparr>dbChangeCounter = 5, lastTrainedRowCount = 4\<rparr>) (Some (Artifact 4))) [1]
   = Inr ((example_state [example_job 1 None] (Some (Pipeline 4)) [1 \<mapsto> 1]
        (Some \<lparr>dbChangeCounter = 5, lastTrainedRowCount = 4\<rparr>) (Some (Artifact 4)))
          \<lparr>dbQueries := [SelectTraining, SelectAllFeatures]\<rparr>, [1 \<mapsto> 1])
   \<and> predict example_libraries
       ((example_state [example_job 1 None] (Some (Pipeline 4)) [1 \<mapsto> 1]
        (Some \<lparr>dbChangeCounter = 5, lastTrainedRowCount = 4\<rparr>) (Some (Artifact 4)))
          \<lparr>dbQueries := [SelectTraining, SelectAllFeatures]\<rparr>) [1]
   = Inr ((example_state [example_job 1 None] (Some (Pipeline 4)) [1 \<mapsto> 1]
        (Some \<lparr>dbChangeCounter = 5, lastTrainedRowCount = 4\<rparr>) (Some (Artifact 4)))
          \<lparr>dbQueries := [SelectTraining, SelectAllFeatures, SelectTraining, SelectAllFeatures]\<rparr>,
          [1 \<mapsto> 1])"
  by (simp add: ml_defs pre_defs example_defs Let_def)

text \<open>
  C8, as amended.  When \<open>predict(ids)\<close> has returned, calling it again with nothing in
  between returns the same dictionary.  The second call sends nothing to the database and
  changes nothing when the first call has left a model in memory and a load factor not
  above 0.2; that is so, in particular, whenever the table has a trainable row.
\<close>

theorem predict_twice:
  assumes "predict lib s requestedIDs = Inr (s1, r1)"
  shows "(\<exists>s2. predict lib s1 requestedIDs = Inr (s2, r1))
       \<and> (model s1 \<noteq> None \<longrightarrow> \<not> 0.2 < snd (calculateRetrainLoadFactor s1) \<longrightarrow>
            predict lib s1 requestedIDs = Inr (s1, r1))
       \<and> (\<forall>jobs. dbConn s = Some jobs \<longrightarrow> preprocess lib jobs \<noteq> [] \<longrightarrow>
            predict lib s1 requestedIDs = Inr (s1, r1))"
proof (cases "requestedIDs = []")
  case True
  then show ?thesis using assms by (simp add: predict_def)
next
  case False
  from assms False have u: "updateCache lib s requestedIDs = Inr s1"
    and r: "returnRequested (predictionCache s1) requestedIDs Map.empty = Inr r1"
    by (auto simp: predict_def bind_err_def split: sum.splits)
  from r have c: "\<forall>i \<in> set requestedIDs. predictionCache s1 i \<noteq> None"
    by (rule returnRequested_Inr)
  from updateCache_again [OF u c] obtain s2 where
    "updateCache lib s1 requestedIDs = Inr s2" "predictionCache s2 = predictionCache s1"
    by blast
  then have a: "predict lib s1 requestedIDs = Inr (s2, r1)"
    using False r by (simp add: predict_def bind_err_def)
  have w: "predict lib s1 requestedIDs = Inr (s1, r1)"
    if "model s1 \<noteq> None" "\<not> 0.2 < snd (calculateRetrainLoadFactor s1)"
    using updateCache_warm [OF that updateCache_Inr(1) [OF u] c, of lib] False r
    by (simp add: predict_def bind_err_def)
  have "predict lib s1 requestedIDs = Inr (s1, r1)"
    if "dbConn s = Some jobs" "preprocess lib jobs \<noteq> []" for jobs
    using updateCache_Inr(3) [OF u that] w by blast
  then show ?thesis using a w by blast
qed

text \<open>
  At a concrete input: from a cold start on one paid job, the first call trains and the
  second call is answered from the cache.
\<close>

theorem predict_twice_witness:
  "predict example_libraries (cold_start [example_job 1 (Some 10)]) [1] =
     Inr (example_state [example_job 1 (Some 10)] (Some (Pipeline 1)) [1 \<mapsto> 1]
            (Some \<lparr>dbChangeCounter = 0, lastTrainedRowCount = 1\<rparr>) (Some (Artifact 1))
            \<lparr>dbQueries := [SelectTraining, SelectAllFeatures]\<rparr>, [1 \<mapsto> 1])
   \<and> predict example_libraries
       (example_state [example_job 1 (Some 10)] (Some (Pipeline 1)) [1 \<mapsto> 1]
            (Some \<lparr>dbChangeCounter = 0, lastTrainedRowCount = 1\<rparr>) (Some (Artifact 1))
            \<lparr>dbQueries := [SelectTraining, SelectAllFeatures]\<rparr>) [1] =
     Inr (example_state [example_job 1 (Some 10)] (Some (Pipeline 1)) [1 \<mapsto> 1]
            (Some \<lparr>dbChangeCounter = 0, lastTrainedRowCount = 1\<rparr>) (Some (Artifact 1))
            \<lparr>dbQueries := [SelectTraining, SelectAllFeatures]\<rparr>, [1 \<mapsto> 1])"
proof -
  let ?s = "cold_start [example_job 1 (Some 10)]"
  let ?s1 = "example_state [example_job 1 (Some 10)] (Some (Pipeline 1)) [1 \<mapsto> 1]
            (Some \<lparr>dbChangeCounter = 0, lastTrainedRowCount = 1\<rparr>) (Some (Artifact 1))
            \<lparr>dbQueries := [SelectTraining, SelectAllFeatures]\<rparr>"
  have h: "predict example_libraries ?s [1] = Inr (?s1, [1 \<mapsto> 1])"
    by (simp add: ml_defs pre_defs example_defs Let_def)
  have db: "dbConn ?s = Some [example_job 1 (Some 10)]" by (simp add: example_defs)
  have p: "preprocess example_libraries [example_job 1 (Some 10)] \<noteq> []"
    by (simp add: pre_defs example_defs Let_def)
  from predict_twice [OF h] db p
  have "predict example_libraries ?s1 [1] = Inr (?s1, [1 \<mapsto> 1])" by blast
  with h show ?thesis by blast
qed

text \<open>
  C9.  \<open>predict([])\<close> returns the empty dictionary at once: no statement is sent to the
  database, the configuration file is neither read (which would create it) nor written,
  and the cache, the model and the model file are as before: the whole state is unchanged.
\<close>

theorem predict_empty: "predict lib s [] = Inr (s, Map.empty)"
  by (simp add: predict_def)




end
